theory Spec2Isabelle
  imports Complex_Main "HOL-Library.Word"
begin

section \<open>Procedural sound-effect synthesizer (tools/generate_audio.py)\<close>

text \<open>
  The synthesis engine computes on IEEE doubles held in numpy arrays. Here a Python
  float is a real number and a numpy array of floats is a \<open>real list\<close>: rounding,
  overflow to infinity and NaN values inside buffers are not modelled, so every
  statement below is about the exact arithmetic the code approximates. Python
  integers are \<open>int\<close>. Every place where Python or numpy raises is a branch that
  returns \<open>Inl\<close> of the exception.

  Python names with a leading underscore (\<open>_n\<close>, \<open>_phase\<close>, \<open>_const_phase\<close>,
  \<open>_bl_square\<close>, \<open>_bl_sawtooth\<close>) are written with the prefix \<open>p_\<close>; numpy
  functions carry the prefix \<open>np_\<close>.
\<close>

subsection \<open>Errors, floats and array primitives\<close>

datatype error = ValueError | OverflowError | ZeroDivisionError | IndexError | OSError

text \<open>Sequencing of fallible steps: the first exception aborts what follows.\<close>

definition ebind :: "error + 'a \<Rightarrow> ('a \<Rightarrow> error + 'b) \<Rightarrow> error + 'b" where
  "ebind m f = (case m of Inl e \<Rightarrow> Inl e | Inr x \<Rightarrow> f x)"

text \<open>
  A duration argument keeps the non-finite floats apart, because \<open>int()\<close> raises on
  them: \<open>OverflowError\<close> on an infinity and \<open>ValueError\<close> on NaN.
\<close>

datatype pyfloat = Finite real | PosInf | NegInf | NaN

definition SR :: int where
  "SR = 44100"

definition VOLUME :: real where
  "VOLUME = 82 / 100"

text \<open>Python's \<open>int(x)\<close> on a finite float truncates toward zero.\<close>

definition py_int :: "real \<Rightarrow> int" where
  "py_int x = (if x < 0 then - \<lfloor>- x\<rfloor> else \<lfloor>x\<rfloor>)"

text \<open>\<open>_n(dur) = int(SR * dur)\<close>.\<close>

fun p_n :: "pyfloat \<Rightarrow> error + int" where
  "p_n (Finite d) = Inr (py_int (of_int SR * d))"
| "p_n PosInf = Inl OverflowError"
| "p_n NegInf = Inl OverflowError"
| "p_n NaN = Inl ValueError"



text \<open>\<open>np.cumsum\<close>: inclusive running sums, written as the loop with its accumulator.\<close>

fun cumsum_from :: "real \<Rightarrow> real list \<Rightarrow> real list" where
  "cumsum_from acc [] = []"
| "cumsum_from acc (x # xs) = (acc + x) # cumsum_from (acc + x) xs"


subsection \<open>Phase accumulator and oscillators\<close>



text \<open>
  \<open>_bl_square\<close>: \<open>out += sin(k * phase) / k\<close> for \<open>k\<close> in \<open>range(1, harmonics + 1, 2)\<close>,
  then scaled by \<open>4 / pi\<close>. \<open>_bl_sawtooth\<close> runs over \<open>range(1, harmonics + 1)\<close>
  with alternating sign and scales by \<open>2 / pi\<close>.
\<close>

definition py_range2 :: "nat \<Rightarrow> nat \<Rightarrow> nat list" where
  "py_range2 lo hi = filter (\<lambda>k. even (k - lo)) [lo..<hi]"

definition p_bl_square :: "real list \<Rightarrow> nat \<Rightarrow> real list" where
  "p_bl_square phase harmonics =
     map (\<lambda>x. x * (4 / pi))
       (foldl (\<lambda>out k. map2 (\<lambda>y p. y + sin (real k * p) / real k) out phase)
          (map (\<lambda>_. 0) phase) (py_range2 1 (harmonics + 1)))"

definition p_bl_sawtooth :: "real list \<Rightarrow> nat \<Rightarrow> real list" where
  "p_bl_sawtooth phase harmonics =
     map (\<lambda>x. x * (2 / pi))
       (foldl (\<lambda>out k. map2 (\<lambda>y p. y + ((- 1) ^ (k + 1)) * sin (real k * p) / real k) out phase)
          (map (\<lambda>_. 0) phase) [1..<harmonics + 1])"






subsection \<open>Noise: the shared generator\<close>

text \<open>
  \<open>rng = np.random.default_rng(42)\<close> is one generator for the whole process. numpy's
  generator is library code; its state is taken to be the sequence of uniform draws
  from \<open>[-1, 1)\<close> it has yet to return. \<open>rng.uniform(-1, 1, n)\<close> returns the next
  \<open>n\<close> draws and leaves the generator advanced by \<open>n\<close>; every function that draws
  takes the generator and returns it updated.
\<close>

type_synonym rng = "nat \<Rightarrow> real"



text \<open>The loop of \<open>noise_pink\<close> over the white samples, carrying \<open>b0 .. b3\<close>.\<close>

fun pink_loop :: "real \<Rightarrow> real \<Rightarrow> real \<Rightarrow> real \<Rightarrow> real list \<Rightarrow> real list" where
  "pink_loop b0 b1 b2 b3 [] = []"
| "pink_loop b0 b1 b2 b3 (x # w) =
     (let b0' = 0.99886 * b0 + x * 0.0555179;
          b1' = 0.99332 * b1 + x * 0.0750759;
          b2' = 0.96900 * b2 + x * 0.1538520;
          b3' = 0.86650 * b3 + x * 0.3104856
      in (b0' + b1' + b2' + b3' + x * 0.5329522) * 0.11 # pink_loop b0' b1' b2' b3' w)"



subsection \<open>FM synthesis\<close>

text \<open>
  \<open>np.linspace(start, stop, num, endpoint)\<close>: a negative \<open>num\<close> raises ValueError; the
  step is \<open>(stop - start) / div\<close> with \<open>div = num - 1\<close> when the endpoint is included
  and \<open>div = num\<close> otherwise; when \<open>div\<close> is not positive no division takes place.
\<close>

definition linspace_vals :: "real \<Rightarrow> real \<Rightarrow> nat \<Rightarrow> bool \<Rightarrow> real list" where
  "linspace_vals start stop num endpoint =
     (let dv = (if endpoint then int num - 1 else int num) in
      if 0 < dv
      then map (\<lambda>i. start + real i * ((stop - start) / of_int dv)) [0..<num]
      else map (\<lambda>i. start + real i * (stop - start)) [0..<num])"

definition np_linspace :: "real \<Rightarrow> real \<Rightarrow> int \<Rightarrow> bool \<Rightarrow> error + real list" where
  "np_linspace start stop num endpoint =
     (if num < 0 then Inl ValueError
      else Inr (linspace_vals start stop (nat num) endpoint))"



subsection \<open>Envelope\<close>

text \<open>
  \<open>env = np.empty(n)\<close> is uninitialised memory: a cell is \<open>None\<close> until a slice
  assignment writes it. A Python slice \<open>env[lo:hi]\<close> clamps its bounds to the array
  (a negative bound counts from the end); assigning an array to it raises ValueError
  unless the lengths agree or the array has one element, which is broadcast.
\<close>

definition norm_index :: "int \<Rightarrow> int \<Rightarrow> int" where
  "norm_index i n = (if i < 0 then max (i + n) 0 else min i n)"

definition slice_fill :: "'a list \<Rightarrow> int \<Rightarrow> int \<Rightarrow> 'a \<Rightarrow> 'a list" where
  "slice_fill env lo hi v =
     (let n = int (length env);
          s = nat (norm_index lo n);
          len = nat (norm_index hi n - norm_index lo n)
      in take s env @ replicate len v @ drop (s + len) env)"

definition slice_assign :: "'a list \<Rightarrow> int \<Rightarrow> int \<Rightarrow> 'a list \<Rightarrow> error + 'a list" where
  "slice_assign env lo hi vals =
     (let n = int (length env);
          s = nat (norm_index lo n);
          len = nat (norm_index hi n - norm_index lo n)
      in if length vals = len then Inr (take s env @ vals @ drop (s + len) env)
         else if length vals = 1 then Inr (slice_fill env lo hi (hd vals))
         else Inl ValueError)"

text \<open>
  The envelope array of \<open>adsr\<close> as it stands before the final product. \<open>x ** p\<close> on
  the non-negative ramp values is \<open>x powr p\<close> (numpy yields NaN on a negative base,
  which is outside this model).
\<close>

definition adsr_env :: "nat \<Rightarrow> real \<Rightarrow> real \<Rightarrow> real \<Rightarrow> real \<Rightarrow> error + real option list" where
  "adsr_env len attack decay sustain release =
     (let n = int len;
          env = replicate len None;
          a = min (py_int (attack * of_int SR)) n;
          d = min (py_int (decay * of_int SR)) (n - a);
          r = min (py_int (release * of_int SR)) n;
          s_start = a + d;
          s_end = max (n - r) s_start
      in
      ebind (if a \<noteq> 0
             then ebind (np_linspace 0 1 a True)
                    (\<lambda>l. slice_assign env 0 a (map (\<lambda>x. Some (x powr 0.5)) l))
             else Inr env) (\<lambda>env.
      ebind (if d \<noteq> 0
             then ebind (np_linspace 1 sustain d True)
                    (\<lambda>l. slice_assign env a (a + d) (map (\<lambda>x. Some (x powr 1.4)) l))
             else Inr env) (\<lambda>env.
      let env = slice_fill env s_start s_end (Some sustain) in
      if r \<noteq> 0
      then (let rem = min r (n - s_end) in
            ebind (np_linspace sustain 0 rem True)
              (\<lambda>l. slice_assign env s_end (s_end + rem) (map (\<lambda>x. Some (x powr 1.6)) l)))
      else Inr env)))"


subsection \<open>Lowpass filter\<close>

fun lowpass_loop :: "real \<Rightarrow> real \<Rightarrow> real list \<Rightarrow> real list" where
  "lowpass_loop alpha y [] = []"
| "lowpass_loop alpha y (x # xs) =
     (let y' = y + alpha * (x - y) in y' # lowpass_loop alpha y' xs)"


subsection \<open>Reverb\<close>








subsection \<open>Notes and the click recipe\<close>






subsection \<open>WAV export and the batch\<close>

text \<open>\<open>np.max\<close> raises ValueError on an array of no elements.\<close>

definition np_max :: "real list \<Rightarrow> error + real" where
  "np_max xs = (case xs of [] \<Rightarrow> Inl ValueError | x # rest \<Rightarrow> Inr (foldl max x rest))"

definition np_clip :: "real \<Rightarrow> real \<Rightarrow> real \<Rightarrow> real" where
  "np_clip x lo hi = min (max x lo) hi"

text \<open>
  The numeric part of \<open>save\<close>: peak normalisation, then
  \<open>np.clip(samples * 32767, -32767, 32767).astype(np.int16)\<close>. The cast truncates
  toward zero and keeps the low 16 bits.
\<close>

definition quantize :: "real list \<Rightarrow> 16 word list" where
  "quantize samples = map (\<lambda>x. word_of_int (py_int (np_clip (x * 32767) (- 32767) 32767))) samples"

definition save_pcm :: "real list \<Rightarrow> error + 16 word list" where
  "save_pcm samples =
     ebind (np_max (map abs samples)) (\<lambda>peak.
     let samples = (if peak > 0 then map (\<lambda>x. x / peak * VOLUME) samples else samples)
     in Inr (quantize samples))"

text \<open>\<open>pcm.tobytes()\<close>: two bytes a sample, low byte first.\<close>

definition tobytes :: "16 word list \<Rightarrow> 8 word list" where
  "tobytes pcm = concat (map (\<lambda>w. [ucast w, ucast (drop_bit 8 w)]) pcm)"

text \<open>
  The world outside the process: the files under \<open>OUT_DIR\<close>, the lines printed, and
  what the operating system will refuse (creating the directory, writing a path).
  A file written through the \<open>wave\<close> module is its parameters and its frames. A
  refused write raises OSError and is taken to leave the disk as it was; the line
  printed after a write is shortened to the file name.
\<close>

record wav =
  nchannels :: nat
  sampwidth :: nat
  framerate :: int
  frames :: "8 word list"

record world =
  disk :: "string \<rightharpoonup> wav"
  stdout :: "string list"
  mkdir_fails :: bool
  write_fails :: "string \<Rightarrow> bool"

definition save :: "string \<Rightarrow> real list \<Rightarrow> world \<Rightarrow> error + world" where
  "save filename samples w =
     (if mkdir_fails w then Inl OSError
      else ebind (save_pcm samples) (\<lambda>pcm.
        if write_fails w filename then Inl OSError
        else Inr (w\<lparr>disk := (disk w)(filename \<mapsto>
                      \<lparr>nchannels = 1, sampwidth = 2, framerate = SR, frames = tobytes pcm\<rparr>),
                    stdout := stdout w @ [filename]\<rparr>)))"

text \<open>
  The loop of \<open>__main__\<close> over the manifest \<open>SOUNDS.items()\<close>, in insertion order:
  \<open>save(filename, fn())\<close>. There is no exception handler, so the first exception ends
  the process: the loop returns the world as it then stands, the generator, and the
  exception if there was one. \<open>main\<close> prints a line before the loop and one after it.
\<close>

type_synonym recipe = "rng \<Rightarrow> error + real list \<times> rng"

fun main_loop :: "(string \<times> recipe) list \<Rightarrow> rng \<Rightarrow> world \<Rightarrow> world \<times> rng \<times> error option" where
  "main_loop [] g w = (w, g, None)"
| "main_loop ((filename, fn) # rest) g w =
     (case fn g of
        Inl e \<Rightarrow> (w, g, Some e)
      | Inr (samples, g') \<Rightarrow>
          (case save filename samples w of
             Inl e \<Rightarrow> (w, g', Some e)
           | Inr w' \<Rightarrow> main_loop rest g' w'))"

definition main :: "(string \<times> recipe) list \<Rightarrow> rng \<Rightarrow> world \<Rightarrow> world \<times> error option" where
  "main sounds g w =
     (case main_loop sounds g (w\<lparr>stdout := stdout w @ [''Generating'']\<rparr>) of
        (w', g', None) \<Rightarrow> (w'\<lparr>stdout := stdout w' @ [''Done'']\<rparr>, None)
      | (w', g', Some e) \<Rightarrow> (w', Some e))"

section \<open>Properties\<close>

subsection \<open>Basic facts\<close>

lemma ebind_Inr [simp]: "ebind (Inr x) f = f x"
  by (simp add: ebind_def)

lemma ebind_Inl [simp]: "ebind (Inl e) f = Inl e"
  by (simp add: ebind_def)


lemma p_n_nonneg: "0 \<le> d \<Longrightarrow> p_n (Finite d) = Inr \<lfloor>44100 * d\<rfloor>"
  by (simp add: SR_def py_int_def)


lemma length_cumsum_from [simp]: "length (cumsum_from acc xs) = length xs"
  by (induction xs arbitrary: acc) auto






subsection \<open>Sine and the phase accumulator\<close>




subsection \<open>Buffer lengths\<close>

lemma length_foldl_map2:
  "length init = length phase \<Longrightarrow>
   length (foldl (\<lambda>out k. map2 (h k) out phase) init ks) = length phase"
  by (induction ks arbitrary: init) auto

lemma length_p_bl_square [simp]: "length (p_bl_square ph h) = length ph"
  by (simp add: p_bl_square_def length_foldl_map2)

lemma length_p_bl_sawtooth [simp]: "length (p_bl_sawtooth ph h) = length ph"
  by (simp add: p_bl_sawtooth_def length_foldl_map2)

lemma length_pink_loop [simp]: "length (pink_loop b0 b1 b2 b3 w) = length w"
  by (induction w arbitrary: b0 b1 b2 b3) (auto simp: Let_def)





subsection \<open>Reverb with no wet signal\<close>











subsection \<open>Reproducible noise\<close>








subsection \<open>FM tone\<close>

lemma length_linspace_vals [simp]: "length (linspace_vals start stop num endpoint) = num"
  by (simp add: linspace_vals_def Let_def)

lemma np_linspace_nat [simp]:
  "np_linspace start stop (int m) endpoint = Inr (linspace_vals start stop m endpoint)"
  by (simp add: np_linspace_def)





subsection \<open>The envelope\<close>

lemma norm_index_inside: "0 \<le> i \<Longrightarrow> i \<le> n \<Longrightarrow> norm_index i n = i"
  by (simp add: norm_index_def)

lemma slice_assign_segment:
  assumes "length vals = m" and "m \<le> k" and "lo = int (length xs)" and "hi = lo + int m"
  shows "slice_assign (xs @ replicate k c) lo hi vals = Inr (xs @ vals @ replicate (k - m) c)"
proof -
  have l: "norm_index lo (int (length (xs @ replicate k c))) = int (length xs)"
    using assms by (simp add: norm_index_inside)
  have h: "norm_index hi (int (length (xs @ replicate k c))) = int (length xs) + int m"
    using assms by (simp add: norm_index_inside)
  show ?thesis
    unfolding slice_assign_def Let_def l h using assms by simp
qed

lemma slice_fill_segment:
  assumes "m \<le> k" and "lo = int (length xs)" and "hi = lo + int m"
  shows "slice_fill (xs @ replicate k c) lo hi v = xs @ replicate m v @ replicate (k - m) c"
proof -
  have l: "norm_index lo (int (length (xs @ replicate k c))) = int (length xs)"
    using assms by (simp add: norm_index_inside)
  have h: "norm_index hi (int (length (xs @ replicate k c))) = int (length xs) + int m"
    using assms by (simp add: norm_index_inside)
  show ?thesis
    unfolding slice_fill_def Let_def l h using assms by simp
qed

lemma ramp_stage:
  assumes "m \<le> k" and "lo = int (length xs)" and "hi = lo + int m"
  shows "(if int m \<noteq> 0
          then ebind (np_linspace s e (int m) True)
                 (\<lambda>l. slice_assign (xs @ replicate k c) lo hi (map F l))
          else Inr (xs @ replicate k c))
         = Inr (xs @ map F (linspace_vals s e m True) @ replicate (k - m) c)"
proof (cases "m = 0")
  case True
  then show ?thesis by (simp add: linspace_vals_def)
next
  case False
  have "slice_assign (xs @ replicate k c) lo hi (map F (linspace_vals s e m True))
      = Inr (xs @ map F (linspace_vals s e m True) @ replicate (k - m) c)"
    by (rule slice_assign_segment) (use assms in simp_all)
  then show ?thesis using False by simp
qed

lemma ramp_stage0:
  assumes "m \<le> k"
  shows "(if int m \<noteq> 0
          then ebind (np_linspace s e (int m) True)
                 (\<lambda>l. slice_assign (replicate k c) 0 (int m) (map F l))
          else Inr (replicate k c))
         = Inr (map F (linspace_vals s e m True) @ replicate (k - m) c)"
proof (cases "m = 0")
  case True
  then show ?thesis by (simp add: linspace_vals_def)
next
  case False
  have "slice_assign ([] @ replicate k c) 0 (int m) (map F (linspace_vals s e m True))
      = Inr ([] @ map F (linspace_vals s e m True) @ replicate (k - m) c)"
    by (rule slice_assign_segment) (use assms in simp_all)
  then show ?thesis using False by simp
qed

lemma py_int_ge0: "0 \<le> x \<Longrightarrow> 0 \<le> py_int x"
  by (simp add: py_int_def)

lemma int_min_nat: "0 \<le> x \<Longrightarrow> min x (int n) = int (min (nat x) n)"
  by linarith

lemma adsr_env_eq:
  fixes len :: nat and attack decay sustain release :: real
  assumes "0 \<le> attack" and "0 \<le> decay" and "0 \<le> release"
  defines "a \<equiv> min (nat (py_int (attack * of_int SR))) len"
  defines "d \<equiv> min (nat (py_int (decay * of_int SR))) (len - a)"
  defines "r \<equiv> min (nat (py_int (release * of_int SR))) len"
  defines "s_end \<equiv> max (len - r) (a + d)"
  shows "adsr_env len attack decay sustain release =
     Inr (map (\<lambda>x. Some (x powr 0.5)) (linspace_vals 0 1 a True)
        @ map (\<lambda>x. Some (x powr 1.4)) (linspace_vals 1 sustain d True)
        @ replicate (s_end - (a + d)) (Some sustain)
        @ map (\<lambda>x. Some (x powr 1.6)) (linspace_vals sustain 0 (len - s_end) True))"
proof -
  let ?V1 = "map (\<lambda>x. Some (x powr 0.5)) (linspace_vals 0 1 a True)"
  let ?V2 = "map (\<lambda>x. Some (x powr 1.4)) (linspace_vals 1 sustain d True)"
  let ?V3 = "replicate (s_end - (a + d)) (Some sustain)"
  let ?V4 = "map (\<lambda>x. Some (x powr 1.6)) (linspace_vals sustain 0 (len - s_end) True)"
  have SRpos: "(0::real) \<le> of_int SR" by (simp add: SR_def)
  have A: "0 \<le> py_int (attack * of_int SR)" and D: "0 \<le> py_int (decay * of_int SR)"
    and R: "0 \<le> py_int (release * of_int SR)"
    using assms(1-3) SRpos by (simp_all add: py_int_ge0)
  have i_a: "min (py_int (attack * of_int SR)) (int len) = int a"
    using A by (simp add: a_def int_min_nat)
  have al: "a \<le> len" by (simp add: a_def)
  have i_d: "min (py_int (decay * of_int SR)) (int len - int a) = int d"
    using D al int_min_nat [of "py_int (decay * of_int SR)" "len - a"]
    by (simp add: d_def of_nat_diff)
  have i_r: "min (py_int (release * of_int SR)) (int len) = int r"
    using R by (simp add: r_def int_min_nat)
  have bounds: "a \<le> len" "a + d \<le> len" "r \<le> len" "a + d \<le> s_end" "s_end \<le> len"
    by (simp_all add: a_def d_def r_def s_end_def)
  have i_s: "max (int len - int r) (int a + int d) = int s_end"
    using bounds unfolding s_end_def by linarith
  have rem: "min (int r) (int len - int s_end) = int (len - s_end)"
    using bounds unfolding s_end_def by linarith
  have e1: "(if int a \<noteq> 0
          then ebind (np_linspace 0 1 (int a) True)
                 (\<lambda>l. slice_assign (replicate len None) 0 (int a) (map (\<lambda>x. Some (x powr 0.5)) l))
          else Inr (replicate len None))
      = Inr (?V1 @ replicate (len - a) None)"
    by (rule ramp_stage0) (rule al)
  have e2: "(if int d \<noteq> 0
          then ebind (np_linspace 1 sustain (int d) True)
                 (\<lambda>l. slice_assign (?V1 @ replicate (len - a) None) (int a) (int a + int d)
                        (map (\<lambda>x. Some (x powr 1.4)) l))
          else Inr (?V1 @ replicate (len - a) None))
      = Inr (?V1 @ ?V2 @ replicate (len - a - d) None)"
    by (rule ramp_stage) (use bounds in simp_all)
  have k3: "len - a - d - (s_end - (a + d)) = len - s_end"
    using bounds by simp
  have e3: "slice_fill (?V1 @ ?V2 @ replicate (len - a - d) None) (int a + int d) (int s_end)
        (Some sustain)
      = ?V1 @ ?V2 @ ?V3 @ replicate (len - s_end) None"
    using slice_fill_segment [of "s_end - (a + d)" "len - a - d" "int a + int d" "?V1 @ ?V2"
        "int s_end" None "Some sustain"] bounds
    unfolding append_assoc k3 by simp
  have e4: "slice_assign (?V1 @ ?V2 @ ?V3 @ replicate (len - s_end) None) (int s_end)
        (int s_end + int (len - s_end)) ?V4
      = Inr (?V1 @ ?V2 @ ?V3 @ ?V4)"
    using slice_assign_segment [of ?V4 "len - s_end" "len - s_end" "int s_end" "?V1 @ ?V2 @ ?V3"
        "int s_end + int (len - s_end)" None] bounds
    unfolding append_assoc by simp
  show ?thesis
  proof (cases "r = 0")
    case True
    then have "s_end = len" using bounds by (simp add: s_end_def)
    then have e5: "?V1 @ ?V2 @ ?V3 @ replicate (len - s_end) None = ?V1 @ ?V2 @ ?V3 @ ?V4"
      by (simp add: linspace_vals_def)
    have z: "(int r \<noteq> 0) = False" using True by simp
    show ?thesis
      unfolding adsr_env_def Let_def i_a i_d i_r i_s rem e1 ebind_Inr e2 e3 e5 z
      by (simp only: if_False)
  next
    case False
    then have nz: "(int r = 0) = False" by simp
    show ?thesis
      unfolding adsr_env_def Let_def i_a i_d i_r i_s rem e1 ebind_Inr e2 e3
      by (simp only: nz not_False_eq_True if_True np_linspace_nat ebind_Inr e4)
  qed
qed




lemma py_int_441: "py_int (1 / 10000 * of_int SR) = 4"
  by (simp add: SR_def py_int_def)

lemma upt_4: "[0..<4] = [0, 1, 2, 3]"
  by (simp add: upt_conv_Cons)

lemma ramp4:
  "linspace_vals s e 4 True = [s, s + (e - s) / 3, s + 2 * ((e - s) / 3), s + 3 * ((e - s) / 3)]"
  by (simp add: linspace_vals_def upt_4)

lemma replicate_4: "replicate 4 x = [x, x, x, x]"
  by (simp add: numeral_eq_Suc)

lemma adsr_env_small:
  "adsr_env 16 (1 / 10000) (1 / 10000) (1 / 4) (1 / 10000) =
     Inr [Some 0, Some ((1 / 3) powr (1 / 2)), Some ((2 / 3) powr (1 / 2)), Some 1,
          Some 1, Some ((3 / 4) powr (14 / 10)), Some ((1 / 2) powr (14 / 10)),
          Some ((1 / 4) powr (14 / 10)),
          Some (1 / 4), Some (1 / 4), Some (1 / 4), Some (1 / 4),
          Some ((1 / 4) powr (16 / 10)), Some ((1 / 6) powr (16 / 10)),
          Some ((1 / 12) powr (16 / 10)), Some 0]"
proof -
  have a: "min (nat (py_int (1 / 10000 * of_int SR))) 16 = 4"
    unfolding py_int_441 by simp
  have d: "min (nat (py_int (1 / 10000 * of_int SR))) (16 - 4) = 4"
    unfolding py_int_441 by simp
  have s: "max (16 - 4) (4 + 4) = (12::nat)" "12 - (4 + 4) = (4::nat)" "16 - 12 = (4::nat)"
    by simp_all
  have "adsr_env 16 (1 / 10000) (1 / 10000) (1 / 4) (1 / 10000) =
     Inr (map (\<lambda>x. Some (x powr 0.5)) (linspace_vals 0 1 4 True)
        @ map (\<lambda>x. Some (x powr 1.4)) (linspace_vals 1 (1 / 4) 4 True)
        @ replicate 4 (Some (1 / 4))
        @ map (\<lambda>x. Some (x powr 1.6)) (linspace_vals (1 / 4) 0 4 True))"
    using adsr_env_eq [of "1 / 10000" "1 / 10000" "1 / 10000" 16 "1 / 4"]
    unfolding a d s by simp
  also have "\<dots> = Inr [Some 0, Some ((1 / 3) powr (1 / 2)), Some ((2 / 3) powr (1 / 2)), Some 1,
          Some 1, Some ((3 / 4) powr (14 / 10)), Some ((1 / 2) powr (14 / 10)),
          Some ((1 / 4) powr (14 / 10)),
          Some (1 / 4), Some (1 / 4), Some (1 / 4), Some (1 / 4),
          Some ((1 / 4) powr (16 / 10)), Some ((1 / 6) powr (16 / 10)),
          Some ((1 / 12) powr (16 / 10)), Some 0]"
    unfolding ramp4 replicate_4 by simp
  finally show ?thesis .
qed

lemma powr_below: "0 < x \<Longrightarrow> x < 1 \<Longrightarrow> 1 < p \<Longrightarrow> x powr p < x" for x p :: real
  using powr_less_mono' [of x 1 p] by simp

text \<open>
  C5 against the code. With four samples in each stage (\<open>N = 16\<close>, attack, decay and
  release of \<open>0.0001\<close> s, sustain \<open>0.25\<close>) the envelope is the list below. The decay
  segment is \<open>linspace(1, sustain, d) ** 1.4\<close>: the power is applied to the ramp's
  values, so its last value, at index 7, is \<open>0.25 ** 1.4\<close>, below the sustain level
  \<open>0.25\<close> held from index 8 on. Likewise the release segment starts, at index 12, at
  \<open>0.25 ** 1.6\<close> and not at the sustain level.
\<close>

theorem adsr_segments_miss_sustain:
  "adsr_env 16 (1 / 10000) (1 / 10000) (1 / 4) (1 / 10000) =
     Inr [Some 0, Some ((1 / 3) powr (1 / 2)), Some ((2 / 3) powr (1 / 2)), Some 1,
          Some 1, Some ((3 / 4) powr (14 / 10)), Some ((1 / 2) powr (14 / 10)),
          Some ((1 / 4) powr (14 / 10)),
          Some (1 / 4), Some (1 / 4), Some (1 / 4), Some (1 / 4),
          Some ((1 / 4) powr (16 / 10)), Some ((1 / 6) powr (16 / 10)),
          Some ((1 / 12) powr (16 / 10)), Some 0]
   \<and> (1 / 4) powr (14 / 10) < (1 / 4 :: real)
   \<and> (1 / 4) powr (16 / 10) < (1 / 4 :: real)"
proof -
  have d: "(1 / 4) powr (14 / 10) < (1 / 4 :: real)"
    by (rule powr_below) simp_all
  have r: "(1 / 4) powr (16 / 10) < (1 / 4 :: real)"
    by (rule powr_below) simp_all
  from adsr_env_small d r show ?thesis by (intro conjI)
qed

subsection \<open>Export: normalisation and quantisation\<close>























subsection \<open>What invalid parameters do\<close>

lemma length_lowpass_loop [simp]: "length (lowpass_loop alpha y xs) = length xs"
  by (induction xs arbitrary: y) (auto simp: Let_def)


lemma p_bl_square_Nil [simp]: "p_bl_square [] h = []"
  by (simp only: length_0_conv [symmetric] length_p_bl_square list.size)

lemma p_bl_sawtooth_Nil [simp]: "p_bl_sawtooth [] h = []"
  by (simp only: length_0_conv [symmetric] length_p_bl_sawtooth list.size)










subsection \<open>The batch and a failing write\<close>

lemma main_loop_append:
  "main_loop (xs @ ys) g w =
     (case main_loop xs g w of
        (w1, g1, None) \<Rightarrow> main_loop ys g1 w1
      | (w1, g1, Some e) \<Rightarrow> (w1, g1, Some e))"
proof (induction xs arbitrary: g w)
  case Nil
  show ?case by simp
next
  case (Cons x xs)
  obtain filename fn where x: "x = (filename, fn)" by (cases x)
  show ?case
    by (simp add: x Cons.IH split: sum.splits prod.splits)
qed

lemma save_effect:
  assumes "save filename samples w = Inr w'"
  shows "\<exists>pcm. save_pcm samples = Inr pcm
          \<and> w' = w\<lparr>disk := (disk w)(filename \<mapsto>
                         \<lparr>nchannels = 1, sampwidth = 2, framerate = SR, frames = tobytes pcm\<rparr>),
                       stdout := stdout w @ [filename]\<rparr>"
  using assms by (auto simp: save_def ebind_def split: if_splits sum.splits)

lemma main_loop_frame:
  assumes "main_loop xs g w = (w1, g1, e)"
  shows "write_fails w1 = write_fails w \<and> mkdir_fails w1 = mkdir_fails w
       \<and> (\<forall>f. f \<notin> fst ` set xs \<longrightarrow> disk w1 f = disk w f)"
  using assms
proof (induction xs arbitrary: g w)
  case Nil
  then show ?case by simp
next
  case (Cons x xs)
  obtain filename fn where x: "x = (filename, fn)" by (cases x)
  show ?case
  proof (cases "fn g")
    case (Inl err)
    then show ?thesis using Cons.prems by (simp add: x)
  next
    case (Inr res)
    obtain samples g' where res: "res = (samples, g')" by (cases res)
    show ?thesis
    proof (cases "save filename samples w")
      case (Inl err)
      then show ?thesis using Cons.prems Inr by (simp add: x res)
    next
      case sv: (Inr w')
      then have rest: "main_loop xs g' w' = (w1, g1, e)"
        using Cons.prems Inr by (simp add: x res)
      from save_effect [OF sv] obtain pcm where w': "w' = w\<lparr>disk := (disk w)(filename \<mapsto>
           \<lparr>nchannels = 1, sampwidth = 2, framerate = SR, frames = tobytes pcm\<rparr>),
           stdout := stdout w @ [filename]\<rparr>" by blast
      from Cons.IH [OF rest] show ?thesis by (auto simp: x w')
    qed
  qed
qed

lemma main_loop_stdout:
  assumes "main_loop xs g w = (w1, g1, None)"
  shows "stdout w1 = stdout w @ map fst xs"
  using assms
proof (induction xs arbitrary: g w)
  case Nil
  then show ?case by simp
next
  case (Cons x xs)
  obtain filename fn where x: "x = (filename, fn)" by (cases x)
  from Cons.prems obtain samples g' w' where
    r: "fn g = Inr (samples, g')" and sv: "save filename samples w = Inr w'"
    and rest: "main_loop xs g' w' = (w1, g1, None)"
    by (auto simp: x split: sum.splits prod.splits)
  from save_effect [OF sv] have "stdout w' = stdout w @ [filename]" by auto
  with Cons.IH [OF rest] show ?case by (simp add: x)
qed

text \<open>
  C9, as the code has it. The loop of \<open>__main__\<close> has no exception handler. If the
  entries before \<open>(filename, fn)\<close> have been generated and written, \<open>fn\<close> renders a
  buffer that can be quantised, and the write of \<open>filename\<close> fails, then the run ends
  there with OSError: the world left behind is the one after the earlier entries, so
  no file but theirs has changed and nothing is printed for the failing or any later
  entry, which is neither generated nor written.
\<close>

theorem write_failure_aborts_batch:
  assumes "main_loop pre g (w\<lparr>stdout := stdout w @ [''Generating'']\<rparr>) = (w1, g1, None)"
    and "fn g1 = Inr (samples, g2)"
    and "save_pcm samples = Inr pcm"
    and "write_fails w filename"
  shows "main (pre @ (filename, fn) # rest) g w = (w1, Some OSError)
       \<and> (\<forall>f. f \<notin> fst ` set pre \<longrightarrow> disk w1 f = disk w f)
       \<and> stdout w1 = stdout w @ [''Generating''] @ map fst pre"
proof -
  note fr = main_loop_frame [OF assms(1)]
  have wf: "write_fails w1 filename" using fr assms(4) by simp
  have sv: "save filename samples w1 = Inl OSError"
    using wf by (simp add: save_def assms(3))
  have "main_loop (pre @ (filename, fn) # rest) g (w\<lparr>stdout := stdout w @ [''Generating'']\<rparr>)
      = (w1, g2, Some OSError)"
    by (simp add: main_loop_append assms(1,2) sv)
  then have m: "main (pre @ (filename, fn) # rest) g w = (w1, Some OSError)"
    by (simp add: main_def)
  have d: "\<forall>f. f \<notin> fst ` set pre \<longrightarrow> disk w1 f = disk w f"
    using fr by simp
  have s: "stdout w1 = stdout w @ [''Generating''] @ map fst pre"
    using main_loop_stdout [OF assms(1)] by simp
  from m d s show ?thesis by (intro conjI)
qed

lemma save_pcm_one: "save_pcm [1] = Inr [26868]"
  by (simp add: save_pcm_def np_max_def quantize_def VOLUME_def np_clip_def py_int_def)

lemma tobytes_26868: "tobytes [26868] = [244, 104]"
  by (simp add: tobytes_def drop_bit_eq_div)

theorem write_failure_aborts_batch_witness:
  "main [(''a.wav'', \<lambda>g. Inr ([1], g)), (''b.wav'', \<lambda>g. Inr ([1], g)), (''c.wav'', \<lambda>g. Inr ([1], g))]
      (\<lambda>i. 0)
      \<lparr>disk = Map.empty, stdout = [], mkdir_fails = False, write_fails = (\<lambda>f. f = ''b.wav'')\<rparr>
   = (\<lparr>disk = [''a.wav'' \<mapsto> \<lparr>nchannels = 1, sampwidth = 2, framerate = SR, frames = [244, 104]\<rparr>],
       stdout = [''Generating'', ''a.wav''], mkdir_fails = False,
       write_fails = (\<lambda>f. f = ''b.wav'')\<rparr>,
      Some OSError)"
proof -
  let ?r = "\<lambda>g :: rng. Inr ([1 :: real], g) :: error + real list \<times> rng"
  let ?w = "\<lparr>disk = Map.empty, stdout = [], mkdir_fails = False,
             write_fails = (\<lambda>f. f = ''b.wav'')\<rparr>"
  let ?w1 = "\<lparr>disk = [''a.wav'' \<mapsto>
                 \<lparr>nchannels = 1, sampwidth = 2, framerate = SR, frames = [244, 104]\<rparr>],
              stdout = [''Generating'', ''a.wav''], mkdir_fails = False,
              write_fails = (\<lambda>f. f = ''b.wav'')\<rparr>"
  have h1: "main_loop [(''a.wav'', ?r)] (\<lambda>i. 0) (?w\<lparr>stdout := stdout ?w @ [''Generating'']\<rparr>)
      = (?w1, \<lambda>i. 0, None)"
    by (simp add: save_def save_pcm_one tobytes_26868)
  have h2: "?r (\<lambda>i. 0) = Inr ([1], \<lambda>i. 0)" by simp
  have h4: "write_fails ?w ''b.wav''" by simp
  from write_failure_aborts_batch [where pre = "[(''a.wav'', ?r)]" and g = "\<lambda>i. 0" and w = ?w
      and ?w1.0 = ?w1 and ?g1.0 = "\<lambda>i. 0" and fn = ?r and samples = "[1]" and ?g2.0 = "\<lambda>i. 0"
      and pcm = "[26868]" and filename = "''b.wav''" and rest = "[(''c.wav'', ?r)]",
      OF h1 h2 save_pcm_one h4, THEN conjunct1]
  show ?thesis by simp
qed

text \<open>
  C9 as the specification words it fails. With three entries and a write of the
  second that fails, the run ends in OSError with only \<open>a.wav\<close> on disk: \<open>c.wav\<close> is
  never generated.
\<close>

theorem batch_continues_counterexample:
  "main [(''a.wav'', \<lambda>g. Inr ([1], g)), (''b.wav'', \<lambda>g. Inr ([1], g)), (''c.wav'', \<lambda>g. Inr ([1], g))]
      (\<lambda>i. 0)
      \<lparr>disk = Map.empty, stdout = [], mkdir_fails = False, write_fails = (\<lambda>f. f = ''b.wav'')\<rparr>
   = (\<lparr>disk = [''a.wav'' \<mapsto> \<lparr>nchannels = 1, sampwidth = 2, framerate = 44100, frames = [244, 104]\<rparr>],
       stdout = [''Generating'', ''a.wav''], mkdir_fails = False,
       write_fails = (\<lambda>f. f = ''b.wav'')\<rparr>,
      Some OSError)"
  by (simp add: main_def save_def save_pcm_one tobytes_26868 SR_def)


end
